theory Spec2Isabelle
  imports Complex_Main "HOL-Library.Word" "HOL-Library.Monad_Syntax"
begin

unbundle bit_operations_syntax

section \<open>Numbers\<close>

text \<open>
  The C++ types \<open>double\<close> and \<open>float\<close> are modelled by one type \<open>dbl\<close>: a real number,
  or one of the three special values of IEEE arithmetic. The arithmetic on finite values
  is exact (rounding, overflow to infinity and the sign of zero are not modelled, so a
  zero divisor counts as \<open>+0\<close>); the special values follow IEEE: a nonzero number divided
  by zero is an infinity, \<open>0/0\<close>, \<open>0 * inf\<close> and \<open>inf - inf\<close> are NaN, NaN propagates, and
  every ordered comparison with NaN is false. The casts between \<open>float\<close> and \<open>double\<close>
  are the identity.
\<close>

datatype dbl = Fin real | PInf | NInf | NaN

definition signed_inf :: "real \<Rightarrow> dbl" where
  "signed_inf s = (if s = 0 then NaN else if 0 < s then PInf else NInf)"

fun dneg :: "dbl \<Rightarrow> dbl" where
  "dneg (Fin a) = Fin (- a)"
| "dneg PInf = NInf"
| "dneg NInf = PInf"
| "dneg NaN = NaN"

fun dadd :: "dbl \<Rightarrow> dbl \<Rightarrow> dbl" where
  "dadd (Fin a) (Fin b) = Fin (a + b)"
| "dadd NaN _ = NaN"
| "dadd _ NaN = NaN"
| "dadd PInf NInf = NaN"
| "dadd NInf PInf = NaN"
| "dadd PInf _ = PInf"
| "dadd NInf _ = NInf"
| "dadd (Fin a) PInf = PInf"
| "dadd (Fin a) NInf = NInf"

definition dsub :: "dbl \<Rightarrow> dbl \<Rightarrow> dbl" where
  "dsub a b = dadd a (dneg b)"

fun dmul :: "dbl \<Rightarrow> dbl \<Rightarrow> dbl" where
  "dmul (Fin a) (Fin b) = Fin (a * b)"
| "dmul NaN _ = NaN"
| "dmul _ NaN = NaN"
| "dmul (Fin a) PInf = signed_inf a"
| "dmul (Fin a) NInf = signed_inf (- a)"
| "dmul PInf (Fin b) = signed_inf b"
| "dmul NInf (Fin b) = signed_inf (- b)"
| "dmul PInf PInf = PInf"
| "dmul PInf NInf = NInf"
| "dmul NInf PInf = NInf"
| "dmul NInf NInf = PInf"

fun ddiv :: "dbl \<Rightarrow> dbl \<Rightarrow> dbl" where
  "ddiv (Fin a) (Fin b) = (if b = 0 then signed_inf a else Fin (a / b))"
| "ddiv NaN _ = NaN"
| "ddiv _ NaN = NaN"
| "ddiv (Fin a) PInf = Fin 0"
| "ddiv (Fin a) NInf = Fin 0"
| "ddiv PInf (Fin b) = (if 0 \<le> b then PInf else NInf)"
| "ddiv NInf (Fin b) = (if 0 \<le> b then NInf else PInf)"
| "ddiv PInf _ = NaN"
| "ddiv NInf _ = NaN"

fun dlt :: "dbl \<Rightarrow> dbl \<Rightarrow> bool" where
  "dlt (Fin a) (Fin b) = (a < b)"
| "dlt NaN _ = False"
| "dlt _ NaN = False"
| "dlt _ NInf = False"
| "dlt PInf _ = False"
| "dlt NInf _ = True"
| "dlt (Fin a) PInf = True"

fun dge :: "dbl \<Rightarrow> dbl \<Rightarrow> bool" where
  "dge (Fin a) (Fin b) = (b \<le> a)"
| "dge NaN _ = False"
| "dge _ NaN = False"
| "dge PInf _ = True"
| "dge _ NInf = True"
| "dge NInf _ = False"
| "dge (Fin a) PInf = False"


definition of_int_dbl :: "int \<Rightarrow> dbl" where
  "of_int_dbl n = Fin (of_int n)"

text \<open>
  The type \<open>int\<close> of the code has 32 bits. Converting a floating-point value to \<open>int\<close>
  truncates towards zero; the conversion of a NaN, an infinity or a value beyond the
  range of \<open>int\<close> is undefined behaviour, which the model reports as \<open>None\<close>.
\<close>

definition INT_MIN :: int where "INT_MIN = - (2 ^ 31)"
definition INT_MAX :: int where "INT_MAX = 2 ^ 31 - 1"

definition trunc_real :: "real \<Rightarrow> int" where
  "trunc_real r = (if 0 \<le> r then \<lfloor>r\<rfloor> else \<lceil>r\<rceil>)"

fun to_int :: "dbl \<Rightarrow> int option" where
  "to_int (Fin r) =
     (let n = trunc_real r in if INT_MIN \<le> n \<and> n \<le> INT_MAX then Some n else None)"
| "to_int _ = None"

fun dfloor :: "dbl \<Rightarrow> dbl" where
  "dfloor (Fin r) = Fin (of_int \<lfloor>r\<rfloor>)"
| "dfloor d = d"

fun dceil :: "dbl \<Rightarrow> dbl" where
  "dceil (Fin r) = Fin (of_int \<lceil>r\<rceil>)"
| "dceil d = d"

section \<open>Transform primitives (ImageLib/Transform.h, ImageLib/Transform.cpp)\<close>

text \<open>
  \<open>CVector3\<close> holds \<open>double m_array[3]\<close> and \<open>CTransform3x3\<close> holds
  \<open>double m_array[3][3]\<close>, kept here as its three rows. \<open>vget\<close> and \<open>vset\<close> are
  \<open>operator[]\<close> of \<open>CVector3\<close>; \<open>mget M i j\<close> reads \<open>M[i][j]\<close> and \<open>mset M i j v\<close>
  is the assignment \<open>M[i][j] = v\<close>. The code only uses indices 0, 1 and 2.
\<close>

datatype CVector3 = CVector3 dbl dbl dbl

fun vget :: "CVector3 \<Rightarrow> nat \<Rightarrow> dbl" where
  "vget (CVector3 a b c) i = (if i = 0 then a else if i = 1 then b else c)"

fun vset :: "CVector3 \<Rightarrow> nat \<Rightarrow> dbl \<Rightarrow> CVector3" where
  "vset (CVector3 a b c) i v =
     (if i = 0 then CVector3 v b c else if i = 1 then CVector3 a v c else CVector3 a b v)"

datatype CTransform3x3 = CTransform3x3 CVector3 CVector3 CVector3

fun mrow :: "CTransform3x3 \<Rightarrow> nat \<Rightarrow> CVector3" where
  "mrow (CTransform3x3 r0 r1 r2) i = (if i = 0 then r0 else if i = 1 then r1 else r2)"

fun mset_row :: "CTransform3x3 \<Rightarrow> nat \<Rightarrow> CVector3 \<Rightarrow> CTransform3x3" where
  "mset_row (CTransform3x3 r0 r1 r2) i r =
     (if i = 0 then CTransform3x3 r r1 r2 else if i = 1 then CTransform3x3 r0 r r2
      else CTransform3x3 r0 r1 r)"

definition mget :: "CTransform3x3 \<Rightarrow> nat \<Rightarrow> nat \<Rightarrow> dbl" where
  "mget M i j = vget (mrow M i) j"

definition mset :: "CTransform3x3 \<Rightarrow> nat \<Rightarrow> nat \<Rightarrow> dbl \<Rightarrow> CTransform3x3" where
  "mset M i j v = mset_row M i (vset (mrow M i) j v)"

text \<open>
  \<open>CVector3::CVector3()\<close>. A constructor starts from storage whose content is
  indeterminate; the argument \<open>raw\<close> is that content. The loop of the source runs
  \<open>for (int i = 1; i < 3; i++) m_array[i] = 0\<close>.
\<close>

definition CVector3_ctor :: "CVector3 \<Rightarrow> CVector3" where
  "CVector3_ctor raw = fold (\<lambda>i v. vset v i (Fin 0)) [1..<3] raw"

text \<open>
  \<open>CTransform3x3::CTransform3x3()\<close>: every entry is assigned \<open>(i == j)\<close>, so the
  indeterminate content a constructor starts from does not show.
\<close>

definition zero_vec :: CVector3 where
  "zero_vec = CVector3 (Fin 0) (Fin 0) (Fin 0)"

definition CTransform3x3_ctor :: CTransform3x3 where
  "CTransform3x3_ctor =
     fold (\<lambda>i M. fold (\<lambda>j M. mset M i j (if i = j then Fin 1 else Fin 0)) [0..<3] M)
       [0..<3] (CTransform3x3 zero_vec zero_vec zero_vec)"

text \<open>\<open>CTransform3x3::Translation(tx, ty)\<close>.\<close>

definition Translation :: "dbl \<Rightarrow> dbl \<Rightarrow> CTransform3x3" where
  "Translation tx ty = (let M = CTransform3x3_ctor; M = mset M 0 2 tx; M = mset M 1 2 ty in M)"

text \<open>
  \<open>CTransform3x3::Inverse()\<close>: Gaussian elimination without pivoting on the pair
  \<open>(M0, M1)\<close>, \<open>M0\<close> a copy of the matrix and \<open>M1\<close> the identity. \<open>elim_row\<close> is the
  innermost loop shared by both phases: with \<open>mult = M0[k][i]\<close> read before the loop,
  \<open>M0[k][j] -= mult * M0[i][j]; M1[k][j] -= mult * M1[i][j]\<close> for \<open>j = 0, 1, 2\<close>.
\<close>

definition elim_row ::
  "nat \<Rightarrow> nat \<Rightarrow> CTransform3x3 \<times> CTransform3x3 \<Rightarrow> CTransform3x3 \<times> CTransform3x3" where
  "elim_row i k s =
     (let mult = mget (fst s) k i in
      fold (\<lambda>j (M0, M1).
              (mset M0 k j (dsub (mget M0 k j) (dmul mult (mget M0 i j))),
               mset M1 k j (dsub (mget M1 k j) (dmul mult (mget M1 i j)))))
        [0..<3] s)"

definition normalize_row ::
  "nat \<Rightarrow> CTransform3x3 \<times> CTransform3x3 \<Rightarrow> CTransform3x3 \<times> CTransform3x3" where
  "normalize_row i s =
     (let row_inv = ddiv (Fin 1) (mget (fst s) i i);
          (M0, M1) = fold (\<lambda>j (M0, M1).
                             (mset M0 i j (dmul (mget M0 i j) row_inv),
                              mset M1 i j (dmul (mget M1 i j) row_inv)))
                       [0..<3] s
      in (mset M0 i i (Fin 1), M1))"

text \<open>One round of the forward elimination: normalise row \<open>i\<close>, then subtract it
  from the rows below. \<open>pivot M i\<close> is the divisor \<open>M0[i][i]\<close> of round \<open>i\<close>.\<close>

definition elim_step ::
  "nat \<Rightarrow> CTransform3x3 \<times> CTransform3x3 \<Rightarrow> CTransform3x3 \<times> CTransform3x3" where
  "elim_step i s = fold (\<lambda>k s. elim_row i k s) [i + 1..<3] (normalize_row i s)"

definition forward_elim ::
  "CTransform3x3 \<times> CTransform3x3 \<Rightarrow> CTransform3x3 \<times> CTransform3x3" where
  "forward_elim s = fold elim_step [0..<3] s"

definition backward_elim ::
  "CTransform3x3 \<times> CTransform3x3 \<Rightarrow> CTransform3x3 \<times> CTransform3x3" where
  "backward_elim s =
     fold (\<lambda>i s. fold (\<lambda>k s. elim_row i k s) [0..<i] s) (rev [1..<3]) s"

definition Inverse :: "CTransform3x3 \<Rightarrow> CTransform3x3" where
  "Inverse M = snd (backward_elim (forward_elim (M, CTransform3x3_ctor)))"






text \<open>\<open>CTransform3x3::operator*(const CVector3& v)\<close>: the result vector is default
  constructed and all three of its components are assigned.\<close>

definition mul_vec :: "CTransform3x3 \<Rightarrow> CVector3 \<Rightarrow> CVector3" where
  "mul_vec M v =
     fold (\<lambda>i v2. vset v2 i
             (fold (\<lambda>k sum. dadd sum (dmul (mget M i k) (vget v k))) [0..<3] (Fin 0)))
       [0..<3] (CVector3_ctor zero_vec)"

text \<open>\<open>CTransform3x3::operator*(const CTransform3x3& M1)\<close>.\<close>

definition mul_mat :: "CTransform3x3 \<Rightarrow> CTransform3x3 \<Rightarrow> CTransform3x3" where
  "mul_mat M0 M1 =
     fold (\<lambda>i M2. fold (\<lambda>j M2. mset M2 i j
             (fold (\<lambda>k sum. dadd sum (dmul (mget M0 i k) (mget M1 k j))) [0..<3] (Fin 0)))
           [0..<3] M2)
       [0..<3] CTransform3x3_ctor"

section \<open>Feature correspondences (FeatureSet.h) and the aligner (FeatureAlign.cpp)\<close>

record Feature =
  feat_type :: int
  feat_id :: int
  feat_x :: int
  feat_y :: int
  angleRadians :: dbl
  feat_data :: "dbl list"
  selected :: bool

type_synonym FeatureSet = "Feature list"

record FeatureMatch =
  id1 :: int
  id2 :: int
  score :: dbl

datatype MotionModel = eTranslate | eRotate3D

text \<open>
  \<open>alignPair\<close>: the body of the source between its \<open>BEGIN TODO\<close> and \<open>END TODO\<close>
  comments is empty, so the function is \<open>return 0\<close> and the output parameter \<open>M\<close>
  keeps the value the caller passed. The model returns the status and the value of \<open>M\<close>
  after the call.
\<close>

definition alignPair ::
  "FeatureSet \<Rightarrow> FeatureSet \<Rightarrow> FeatureMatch list \<Rightarrow> MotionModel \<Rightarrow> dbl \<Rightarrow> int \<Rightarrow> dbl \<Rightarrow>
   CTransform3x3 \<Rightarrow> int \<times> CTransform3x3" where
  "alignPair f1 f2 matches m f nRANSAC RANSACthresh M = (0, M)"

text \<open>
  \<open>countInliers\<close>: \<open>inliers.clear(); count = 0;\<close>, a loop over the indices of
  \<open>matches\<close> whose body is empty in the source, and \<open>return count\<close>. The state of the
  loop is \<open>(count, inliers)\<close>; the model returns it.
\<close>

definition countInliers ::
  "FeatureSet \<Rightarrow> FeatureSet \<Rightarrow> FeatureMatch list \<Rightarrow> MotionModel \<Rightarrow> dbl \<Rightarrow> CTransform3x3 \<Rightarrow>
   dbl \<Rightarrow> int list \<Rightarrow> int \<times> int list" where
  "countInliers f1 f2 matches m f M RANSACthresh inliers =
     fold (\<lambda>i (count, inliers). (count, inliers)) [0..<length matches] (0, [])"

text \<open>
  \<open>leastSquaresFit\<close>: the locals \<open>xTrans\<close> and \<open>yTrans\<close> are declared in the loop
  body and never assigned (the assignment is the empty \<open>TODO\<close>), then added to
  \<open>u\<close> and \<open>v\<close>. A read of an unassigned local has no defined value in C++; the
  model takes what round \<open>i\<close> reads as given, \<open>uninit i\<close>, an argument of the model,
  and the statements on the function hold for every \<open>uninit\<close>. After the loop \<open>u\<close> and
  \<open>v\<close> are divided by \<open>inliers.size()\<close> and all nine entries of \<open>M\<close> are assigned.
\<close>

definition leastSquaresFit ::
  "FeatureSet \<Rightarrow> FeatureSet \<Rightarrow> FeatureMatch list \<Rightarrow> MotionModel \<Rightarrow> dbl \<Rightarrow> int list \<Rightarrow>
   CTransform3x3 \<Rightarrow> (nat \<Rightarrow> dbl \<times> dbl) \<Rightarrow> int \<times> CTransform3x3" where
  "leastSquaresFit f1 f2 matches m f inliers M uninit =
     (let (u, v) = fold (\<lambda>i (u, v). let (xTrans, yTrans) = uninit i
                                      in (dadd u xTrans, dadd v yTrans))
                     [0..<length inliers] (Fin 0, Fin 0);
          u = ddiv u (Fin (real (length inliers)));
          v = ddiv v (Fin (real (length inliers)));
          M = mset M 0 0 (Fin 1);
          M = mset M 0 1 (Fin 0);
          M = mset M 0 2 u;
          M = mset M 1 0 (Fin 0);
          M = mset M 1 1 (Fin 1);
          M = mset M 1 2 v;
          M = mset M 2 0 (Fin 0);
          M = mset M 2 1 (Fin 0);
          M = mset M 2 2 (Fin 1)
      in (0, M))"

text \<open>Concrete inputs: a feature at a pixel, a match between the features with ids
  \<open>i\<close> and \<open>j\<close>, and stack content that happens to be zero.\<close>

definition feature_at :: "int \<Rightarrow> int \<Rightarrow> int \<Rightarrow> Feature" where
  "feature_at i px py =
     \<lparr>feat_type = 0, feat_id = i, feat_x = px, feat_y = py, angleRadians = Fin 0,
      feat_data = [], selected = False\<rparr>"

definition match_of :: "int \<Rightarrow> int \<Rightarrow> FeatureMatch" where
  "match_of i j = \<lparr>id1 = i, id2 = j, score = Fin 0\<rparr>"

definition zero_stack :: "nat \<Rightarrow> dbl \<times> dbl" where
  "zero_stack i = (Fin 0, Fin 0)"

section \<open>Images (ImageLib/Image.h, Image.inl, Image.cpp)\<close>

record CShape =
  width :: int
  height :: int
  nBands :: int

definition InBounds :: "CShape \<Rightarrow> int \<Rightarrow> int \<Rightarrow> bool" where
  "InBounds s x y = (0 \<le> x \<and> x < width s \<and> 0 \<le> y \<and> y < height s)"

text \<open>
  An image is its shape, the stride between rows and its pixel memory. \<open>PixelAddress\<close>
  of the source is \<open>&m_memStart[y * m_rowSize + x * m_pixSize + band * m_bandSize]\<close> with
  \<open>m_pixSize = m_bandSize * nBands\<close>: a plain offset into the buffer, with no check of
  \<open>x\<close>, \<open>y\<close> or \<open>band\<close> against the shape. The model counts addresses in elements
  of \<open>m_bandSize\<close> bytes, so \<open>m_rowSize\<close> is the stride in elements and the offset is
  \<open>y * m_rowSize + x * nBands + band\<close>. An access outside of the buffer is undefined
  behaviour, \<open>None\<close> in the model. The overflow of the \<open>int\<close> arithmetic on addresses
  is not modelled.
\<close>

record 'a CImageOf =
  m_shape :: CShape
  m_rowSize :: int
  m_memory :: "'a list"

type_synonym uchar = "8 word"
type_synonym CByteImage = "uchar CImageOf"
type_synonym CFloatImage = "dbl CImageOf"

text \<open>
  \<open>CImage::ReAllocate\<close> on a fresh image: the stride in bytes is
  \<open>(m_pixSize * s.width + 7) & -8\<close> and the buffer has \<open>m_rowSize * s.height\<close> bytes,
  whose content \<open>raw\<close> is indeterminate.
\<close>

definition row_elements :: "int \<Rightarrow> CShape \<Rightarrow> int" where
  "row_elements bandSize s = ((bandSize * nBands s * width s + 7) AND (- 8)) div bandSize"

definition CImageOf_ctor :: "int \<Rightarrow> CShape \<Rightarrow> (nat \<Rightarrow> 'a) \<Rightarrow> 'a CImageOf" where
  "CImageOf_ctor bandSize s raw =
     \<lparr>m_shape = s, m_rowSize = row_elements bandSize s,
      m_memory = map raw [0..<nat (row_elements bandSize s * height s)]\<rparr>"

definition PixelAddress :: "'a CImageOf \<Rightarrow> int \<Rightarrow> int \<Rightarrow> int \<Rightarrow> int" where
  "PixelAddress im x y band = y * m_rowSize im + x * nBands (m_shape im) + band"

definition Pixel :: "'a CImageOf \<Rightarrow> int \<Rightarrow> int \<Rightarrow> int \<Rightarrow> 'a option" where
  "Pixel im x y band =
     (let a = PixelAddress im x y band
      in if 0 \<le> a \<and> a < int (length (m_memory im)) then Some (m_memory im ! nat a) else None)"

text \<open>The assignment \<open>im.Pixel(x, y, band) = v\<close>.\<close>

definition Pixel_assign :: "'a CImageOf \<Rightarrow> int \<Rightarrow> int \<Rightarrow> int \<Rightarrow> 'a \<Rightarrow> 'a CImageOf option" where
  "Pixel_assign im x y band v =
     (let a = PixelAddress im x y band
      in if 0 \<le> a \<and> a < int (length (m_memory im))
         then Some (im\<lparr>m_memory := (m_memory im)[nat a := v]\<rparr>) else None)"

text \<open>\<open>acc.Pixel(x, y, band) += v\<close> on a float image.\<close>

definition Pixel_add :: "CFloatImage \<Rightarrow> int \<Rightarrow> int \<Rightarrow> int \<Rightarrow> dbl \<Rightarrow> CFloatImage option" where
  "Pixel_add acc x y band v =
     do { a \<leftarrow> Pixel acc x y band; Pixel_assign acc x y band (dadd a v) }"

definition of_uchar :: "uchar \<Rightarrow> dbl" where
  "of_uchar p = Fin (real (unat p))"

text \<open>
  \<open>CImageOf<T>::PixelLerp\<close> for \<open>T = uchar\<close>. The \<open>printf\<close> of the source on
  coordinates out of bounds changes no state and is left out.
\<close>

definition PixelLerp :: "CByteImage \<Rightarrow> dbl \<Rightarrow> dbl \<Rightarrow> int \<Rightarrow> dbl option" where
  "PixelLerp img x y band =
     do { xf \<leftarrow> to_int x;
          yf \<leftarrow> to_int y;
          let t = dsub x (of_int_dbl xf);
          let u = dsub y (of_int_dbl yf);
          p1 \<leftarrow> Pixel img xf yf band;
          p2 \<leftarrow> Pixel img (xf + 1) yf band;
          p3 \<leftarrow> Pixel img xf (yf + 1) band;
          p4 \<leftarrow> Pixel img (xf + 1) (yf + 1) band;
          Some (dadd (dmul (dsub (Fin 1) u)
                        (dadd (dmul (dsub (Fin 1) t) (of_uchar p1)) (dmul t (of_uchar p2))))
                     (dmul u
                        (dadd (dmul (dsub (Fin 1) t) (of_uchar p3)) (dmul t (of_uchar p4))))) }"

section \<open>The blender (BlendImages.cpp)\<close>

definition FLT_MAX :: dbl where
  "FLT_MAX = Fin 340282346638528859811704183484516925440"

text \<open>The macros \<open>MIN\<close> and \<open>MAX\<close>.\<close>

definition MIN_dbl :: "dbl \<Rightarrow> dbl \<Rightarrow> dbl" where
  "MIN_dbl x y = (if dlt x y then x else y)"

definition MAX_dbl :: "dbl \<Rightarrow> dbl \<Rightarrow> dbl" where
  "MAX_dbl x y = (if dlt x y then y else x)"

text \<open>A default-constructed \<open>CVector3\<close> whose three components are then assigned.\<close>

definition vec3 :: "dbl \<Rightarrow> dbl \<Rightarrow> dbl \<Rightarrow> CVector3" where
  "vec3 a b c = (let v = CVector3_ctor zero_vec; v = vset v 0 a; v = vset v 1 b; v = vset v 2 c in v)"

text \<open>
  \<open>ImageBoundingBox\<close>. The eight divisions of the source all have the divisor
  \<open>corners[0][2]\<close>, and the maxima start from \<open>0.0\<close>. The results are the four output
  parameters; \<open>None\<close> is the undefined conversion to \<open>int\<close> of a value that is not
  finite or out of range.
\<close>

definition ImageBoundingBox ::
  "'a CImageOf \<Rightarrow> CTransform3x3 \<Rightarrow> (int \<times> int \<times> int \<times> int) option" where
  "ImageBoundingBox img M =
     (let min_xf = FLT_MAX; min_yf = FLT_MAX;
          max_xf = Fin 0; max_yf = Fin 0;
          w = width (m_shape img);
          h = height (m_shape img);
          c0 = vec3 (Fin 0) (Fin 0) (Fin 1);
          c1 = vec3 (of_int_dbl (w - 1)) (Fin 0) (Fin 1);
          c2 = vec3 (Fin 0) (of_int_dbl (h - 1)) (Fin 1);
          c3 = vec3 (of_int_dbl (w - 1)) (of_int_dbl (h - 1)) (Fin 1);
          c0 = mul_vec M c0;
          c1 = mul_vec M c1;
          c2 = mul_vec M c2;
          c3 = mul_vec M c3;
          c0 = vset c0 0 (ddiv (vget c0 0) (vget c0 2));
          c0 = vset c0 1 (ddiv (vget c0 1) (vget c0 2));
          c1 = vset c1 0 (ddiv (vget c1 0) (vget c0 2));
          c1 = vset c1 1 (ddiv (vget c1 1) (vget c0 2));
          c2 = vset c2 0 (ddiv (vget c2 0) (vget c0 2));
          c2 = vset c2 1 (ddiv (vget c2 1) (vget c0 2));
          c3 = vset c3 0 (ddiv (vget c3 0) (vget c0 2));
          c3 = vset c3 1 (ddiv (vget c3 1) (vget c0 2));
          min_xf = MIN_dbl min_xf (vget c0 0);
          min_xf = MIN_dbl min_xf (vget c1 0);
          min_xf = MIN_dbl min_xf (vget c2 0);
          min_xf = MIN_dbl min_xf (vget c3 0);
          min_yf = MIN_dbl min_yf (vget c0 1);
          min_yf = MIN_dbl min_yf (vget c1 1);
          min_yf = MIN_dbl min_yf (vget c2 1);
          min_yf = MIN_dbl min_yf (vget c3 1);
          max_xf = MAX_dbl max_xf (vget c0 0);
          max_xf = MAX_dbl max_xf (vget c1 0);
          max_xf = MAX_dbl max_xf (vget c2 0);
          max_xf = MAX_dbl max_xf (vget c3 0);
          max_yf = MAX_dbl max_yf (vget c0 1);
          max_yf = MAX_dbl max_yf (vget c1 1);
          max_yf = MAX_dbl max_yf (vget c2 1);
          max_yf = MAX_dbl max_yf (vget c3 1)
      in do { min_x \<leftarrow> to_int (dfloor min_xf);
              min_y \<leftarrow> to_int (dfloor min_yf);
              max_x \<leftarrow> to_int (dceil max_xf);
              max_y \<leftarrow> to_int (dceil max_yf);
              Some (min_x, min_y, max_x, max_y) })"

text \<open>
  The bounding box in the words of the specification, for comparison: every corner is
  divided by its own homogeneous coordinate, and the box is the floor of the minimum and
  the ceiling of the maximum of the four corners.
\<close>

definition dehomogenize :: "CVector3 \<Rightarrow> dbl \<times> dbl" where
  "dehomogenize c = (ddiv (vget c 0) (vget c 2), ddiv (vget c 1) (vget c 2))"

definition ImageBoundingBox_spec ::
  "'a CImageOf \<Rightarrow> CTransform3x3 \<Rightarrow> (int \<times> int \<times> int \<times> int) option" where
  "ImageBoundingBox_spec img M =
     (let w = width (m_shape img);
          h = height (m_shape img);
          cs = map (\<lambda>c. dehomogenize (mul_vec M c))
                 [CVector3 (Fin 0) (Fin 0) (Fin 1),
                  CVector3 (of_int_dbl (w - 1)) (Fin 0) (Fin 1),
                  CVector3 (Fin 0) (of_int_dbl (h - 1)) (Fin 1),
                  CVector3 (of_int_dbl (w - 1)) (of_int_dbl (h - 1)) (Fin 1)];
          xs = map fst cs;
          ys = map snd cs
      in do { min_x \<leftarrow> to_int (dfloor (fold MIN_dbl (tl xs) (hd xs)));
              min_y \<leftarrow> to_int (dfloor (fold MIN_dbl (tl ys) (hd ys)));
              max_x \<leftarrow> to_int (dceil (fold MAX_dbl (tl xs) (hd xs)));
              max_y \<leftarrow> to_int (dceil (fold MAX_dbl (tl ys) (hd ys)));
              Some (min_x, min_y, max_x, max_y) })"

text \<open>
  The test \<open>img.Pixel(x, y, 0) == 0x0 && img.Pixel(x, y, 1) == 0x0 &&
  img.Pixel(x, y, 2) == 0x0\<close>, which reads a band only when the bands before it are zero.
\<close>

definition is_black :: "CByteImage \<Rightarrow> int \<Rightarrow> int \<Rightarrow> bool option" where
  "is_black img x y =
     do { b0 \<leftarrow> Pixel img x y 0;
          if b0 \<noteq> 0 then Some False
          else do { b1 \<leftarrow> Pixel img x y 1;
                    if b1 \<noteq> 0 then Some False
                    else do { b2 \<leftarrow> Pixel img x y 2; Some (b2 = 0) } } }"

text \<open>
  The source coordinate of the destination pixel \<open>(x, y)\<close>: \<open>p_src = Minv * p_dest\<close>,
  \<open>x_src = p_src[0] / p_src[2]\<close>, \<open>y_src = p_src[1] / p_src[2]\<close>; and the bounds check on
  it.
\<close>

definition src_coord :: "CTransform3x3 \<Rightarrow> int \<Rightarrow> int \<Rightarrow> dbl \<times> dbl" where
  "src_coord Minv x y =
     (let p_dest = vec3 (of_int_dbl x) (of_int_dbl y) (Fin 1);
          p_src = mul_vec Minv p_dest
      in (ddiv (vget p_src 0) (vget p_src 2), ddiv (vget p_src 1) (vget p_src 2)))"

definition footprint_outside :: "CByteImage \<Rightarrow> dbl \<Rightarrow> dbl \<Rightarrow> bool" where
  "footprint_outside img x_src y_src =
     (dlt x_src (Fin 0) \<or> dge x_src (of_int_dbl (width (m_shape img) - 1)) \<or>
      dlt y_src (Fin 0) \<or> dge y_src (of_int_dbl (height (m_shape img) - 1)))"

text \<open>
  The body of the two loops of \<open>AccumulateBlend\<close> for the destination pixel \<open>(x, y)\<close>;
  every \<open>continue\<close> of the source is a branch that returns the accumulator as it is.
  The weight is the constant \<open>1.0\<close> (the code that would set it is an empty \<open>TODO\<close>).
\<close>

definition AccumulateBlend_pixel ::
  "CByteImage \<Rightarrow> CTransform3x3 \<Rightarrow> int \<Rightarrow> int \<Rightarrow> CFloatImage \<Rightarrow> CFloatImage option" where
  "AccumulateBlend_pixel img Minv y x acc =
     (if x < 0 \<or> x \<ge> width (m_shape acc) \<or> y < 0 \<or> y \<ge> height (m_shape acc) then Some acc
      else
        let (x_src, y_src) = src_coord Minv x y
        in if footprint_outside img x_src y_src then Some acc
           else do {
             xf \<leftarrow> to_int (dfloor x_src);
             yf \<leftarrow> to_int (dfloor y_src);
             let xc = xf + 1;
             let yc = yf + 1;
             k1 \<leftarrow> is_black img xf yf;
             if k1 then Some acc else do {
             k2 \<leftarrow> is_black img xc yf;
             if k2 then Some acc else do {
             k3 \<leftarrow> is_black img xf yc;
             if k3 then Some acc else do {
             k4 \<leftarrow> is_black img xc yc;
             if k4 then Some acc else do {
               let weight = Fin 1;
               l0 \<leftarrow> PixelLerp img x_src y_src 0;
               acc \<leftarrow> Pixel_add acc x y 0 (dmul weight l0);
               l1 \<leftarrow> PixelLerp img x_src y_src 1;
               acc \<leftarrow> Pixel_add acc x y 1 (dmul weight l1);
               l2 \<leftarrow> PixelLerp img x_src y_src 2;
               acc \<leftarrow> Pixel_add acc x y 2 (dmul weight l2);
               Pixel_add acc x y 3 weight } } } } })"

text \<open>A \<open>for\<close> loop over a list of indices whose body may hit undefined behaviour.\<close>

fun for_each :: "('i \<Rightarrow> 's \<Rightarrow> 's option) \<Rightarrow> 'i list \<Rightarrow> 's \<Rightarrow> 's option" where
  "for_each body [] s = Some s"
| "for_each body (i # is) s =
     (case body i s of None \<Rightarrow> None | Some s' \<Rightarrow> for_each body is s')"

text \<open>
  \<open>AccumulateBlend\<close>: \<open>y\<close> runs from \<open>bb_min_y\<close> to \<open>bb_max_y\<close> inclusive and \<open>x\<close>
  from \<open>bb_min_x\<close> to \<open>bb_max_x - 1\<close>. With \<open>bb_max_y = INT_MAX\<close> the increment of
  \<open>y\<close> overflows. Both images are passed by reference; the model returns both as
  they are after the call.
\<close>

definition AccumulateBlend ::
  "CByteImage \<Rightarrow> CFloatImage \<Rightarrow> CTransform3x3 \<Rightarrow> dbl \<Rightarrow> (CByteImage \<times> CFloatImage) option" where
  "AccumulateBlend img acc M blendWidth =
     do { (bb_min_x, bb_min_y, bb_max_x, bb_max_y) \<leftarrow> ImageBoundingBox img M;
          let Minv = Inverse M;
          if bb_max_y = INT_MAX then None
          else do {
            acc' \<leftarrow> for_each
                      (\<lambda>y acc. for_each (\<lambda>x acc. AccumulateBlend_pixel img Minv y x acc)
                                 [bb_min_x..bb_max_x - 1] acc)
                      [bb_min_y..bb_max_y] acc;
            Some (img, acc') } }"

text \<open>
  Notions for the statements on \<open>AccumulateBlend\<close>. A source pixel is black when its
  bands 0, 1 and 2 are zero; \<open>any_black\<close> says that one of the four pixels around the
  source coordinate is. \<open>contribution\<close> is what the body adds to a band of the
  destination pixel: \<open>weight * PixelLerp\<close> for the bands 0, 1, 2 and \<open>weight\<close> for
  band 3, with \<open>weight = 1.0\<close>. \<open>pixel_blended\<close> relates the accumulator before and
  after the call at a band of a destination pixel. \<open>row_fits\<close> says that the pixels of
  a row lie within the stride, as they do after \<open>ReAllocate\<close>.
\<close>

definition black :: "CByteImage \<Rightarrow> int \<Rightarrow> int \<Rightarrow> bool" where
  "black img x y =
     (Pixel img x y 0 = Some 0 \<and> Pixel img x y 1 = Some 0 \<and> Pixel img x y 2 = Some 0)"

definition any_black :: "CByteImage \<Rightarrow> dbl \<Rightarrow> dbl \<Rightarrow> bool" where
  "any_black img x_src y_src =
     (case (to_int (dfloor x_src), to_int (dfloor y_src)) of
        (Some xf, Some yf) \<Rightarrow>
          black img xf yf \<or> black img (xf + 1) yf \<or> black img xf (yf + 1) \<or>
          black img (xf + 1) (yf + 1)
      | _ \<Rightarrow> False)"


definition contribution :: "CByteImage \<Rightarrow> dbl \<Rightarrow> dbl \<Rightarrow> int \<Rightarrow> dbl option" where
  "contribution img x_src y_src band =
     (if band = 3 then Some (Fin 1)
      else map_option (dmul (Fin 1)) (PixelLerp img x_src y_src band))"


definition row_fits :: "'a CImageOf \<Rightarrow> bool" where
  "row_fits im = (nBands (m_shape im) * width (m_shape im) \<le> m_rowSize im)"

definition same_layout :: "'a CImageOf \<Rightarrow> 'a CImageOf \<Rightarrow> bool" where
  "same_layout a b =
     (m_shape a = m_shape b \<and> m_rowSize a = m_rowSize b \<and>
      length (m_memory a) = length (m_memory b))"

text \<open>For the proofs: the four writes of the loop body at one destination pixel, and
  the accumulator being unchanged at every pixel outside of a set \<open>K\<close>.\<close>

definition blend_writes ::
  "CFloatImage \<Rightarrow> int \<Rightarrow> int \<Rightarrow> dbl \<Rightarrow> dbl \<Rightarrow> dbl \<Rightarrow> dbl \<Rightarrow> CFloatImage" where
  "blend_writes acc x y v0 v1 v2 v3 =
     acc\<lparr>m_memory := (m_memory acc)
        [nat (PixelAddress acc x y 0) := v0, nat (PixelAddress acc x y 1) := v1,
         nat (PixelAddress acc x y 2) := v2, nat (PixelAddress acc x y 3) := v3]\<rparr>"

definition frame_outside :: "(int \<times> int) set \<Rightarrow> CFloatImage \<Rightarrow> CFloatImage \<Rightarrow> bool" where
  "frame_outside K acc acc' =
     (same_layout acc acc' \<and>
      (\<forall>x y b. InBounds (m_shape acc) x y \<and> 0 \<le> b \<and> b < nBands (m_shape acc) \<and> (x, y) \<notin> K
         \<longrightarrow> Pixel acc' x y b = Pixel acc x y b))"

text \<open>
  Concrete images. A bitmap read from a grey file has one band, the accumulator
  \<open>BlendImages\<close> makes for it has one band too; a colour file gives four bands.
\<close>

definition gray_img :: CByteImage where
  "gray_img = CImageOf_ctor 1 \<lparr>width = 5, height = 2, nBands = 1\<rparr> (\<lambda>a. 9)"

definition gray_acc :: CFloatImage where
  "gray_acc = CImageOf_ctor 4 \<lparr>width = 2, height = 3, nBands = 1\<rparr> (\<lambda>a. Fin 0)"

definition gray_acc_after :: CFloatImage where
  "gray_acc_after = gray_acc\<lparr>m_memory := [Fin 9, Fin 18, Fin 18, Fin 10, Fin 1, Fin 0]\<rparr>"

text \<open>A colour image of 3 by 2 pixels whose pixel (2, 1) is black, and an accumulator of
  2 by 3 pixels.\<close>

definition rgba_img :: CByteImage where
  "rgba_img =
     CImageOf_ctor 1 \<lparr>width = 3, height = 2, nBands = 4\<rparr>
       (\<lambda>a. if 24 \<le> a \<and> a < 27 then 0 else 9)"

definition rgba_acc :: CFloatImage where
  "rgba_acc = CImageOf_ctor 4 \<lparr>width = 2, height = 3, nBands = 4\<rparr> (\<lambda>a. Fin 0)"

definition rgba_acc_after :: CFloatImage where
  "rgba_acc_after =
     rgba_acc\<lparr>m_memory :=
       [Fin 9, Fin 9, Fin 9, Fin 1, Fin 0, Fin 0, Fin 0, Fin 0,
        Fin 0, Fin 0, Fin 0, Fin 0, Fin 0, Fin 0, Fin 0, Fin 0,
        Fin 0, Fin 0, Fin 0, Fin 0, Fin 0, Fin 0, Fin 0, Fin 0]\<rparr>"

definition image_4x4 :: CByteImage where
  "image_4x4 = CImageOf_ctor 1 \<lparr>width = 4, height = 4, nBands = 4\<rparr> (\<lambda>a. 9)"

definition projective_example :: CTransform3x3 where
  "projective_example =
     CTransform3x3 (CVector3 (Fin 1) (Fin 0) (Fin 0)) (CVector3 (Fin 0) (Fin 1) (Fin 0))
       (CVector3 (Fin 1) (Fin 0) (Fin 1))"

section \<open>The caller of the blender (Project2.cpp, Panorama.cpp)\<close>

text \<open>
  \<open>BlendPairs\<close> reads the pair list line by line. The model starts after the file is
  open and takes the lines as \<open>sscanf\<close> converts them: \<open>Some (infile1, infile2, dx, dy)\<close>,
  or \<open>None\<close> for a line on which \<open>sscanf\<close> does not return 4. \<open>ReadFile\<close> is an
  argument: it gives the image of a path or throws. An exception is \<open>Inl (CError msg)\<close>;
  \<open>Inl Undefined_behaviour\<close> is the access \<open>ipList[n-1]\<close> with \<open>n = 0\<close> after the loop
  on a file with no line. The result is the list handed to \<open>BlendImages\<close>.
\<close>

datatype blend_error = CError string | Undefined_behaviour

record CImagePosition =
  ip_img :: CByteImage
  ip_position :: CTransform3x3

type_synonym pair_line = "(string \<times> string \<times> dbl \<times> dbl) option"

text \<open>
  Project2.cpp. The matrix \<open>M\<close> lives across the rounds of the loop; a line stores
  \<open>dx\<close> in \<open>M[0][2]\<close> and \<open>dy\<close> in \<open>M[1][2]\<close> and then negates \<open>M[1][2]\<close>.
  The counter \<open>n\<close> of the loop is the length of \<open>ipList\<close>.
\<close>

definition read_displacement :: "CTransform3x3 \<Rightarrow> dbl \<Rightarrow> dbl \<Rightarrow> CTransform3x3" where
  "read_displacement M dx dy =
     (let M = mset M 0 2 dx; M = mset M 1 2 dy; M = mset M 1 2 (dneg (mget M 1 2)) in M)"

fun BlendPairs_loop ::
  "(string \<Rightarrow> blend_error + CByteImage) \<Rightarrow> pair_line list \<Rightarrow> CImagePosition list \<Rightarrow>
   CTransform3x3 \<Rightarrow> string \<Rightarrow> blend_error + (CImagePosition list \<times> CTransform3x3 \<times> string)" where
  "BlendPairs_loop ReadFile [] ipList M infile2 = Inr (ipList, M, infile2)"
| "BlendPairs_loop ReadFile (line # rest) ipList M infile2 =
     (let n = length ipList;
          position = (if n = 0 then Translation (Fin 0) (Fin 0)
                      else mul_mat (ip_position (ipList ! (n - 1))) M)
      in case line of
           None \<Rightarrow> Inl (CError ''error reading'')
         | Some (in1, in2, dx, dy) \<Rightarrow>
             (let M = read_displacement M dx dy
              in case ReadFile in1 of
                   Inl e \<Rightarrow> Inl e
                 | Inr im \<Rightarrow>
                     BlendPairs_loop ReadFile rest
                       (ipList @ [\<lparr>ip_img = im, ip_position = position\<rparr>]) M in2))"

definition BlendPairs ::
  "(string \<Rightarrow> blend_error + CByteImage) \<Rightarrow> pair_line list \<Rightarrow>
   blend_error + CImagePosition list" where
  "BlendPairs ReadFile lines =
     (case BlendPairs_loop ReadFile lines [] CTransform3x3_ctor [] of
        Inl e \<Rightarrow> Inl e
      | Inr (ipList, M, infile2) \<Rightarrow>
          (let n = length ipList
           in if n = 0 then Inl Undefined_behaviour
              else
                (let position = mul_mat (ip_position (ipList ! (n - 1))) M
                 in case ReadFile infile2 of
                      Inl e \<Rightarrow> Inl e
                    | Inr im \<Rightarrow> Inr (ipList @ [\<lparr>ip_img = im, ip_position = position\<rparr>]))))"




















section \<open>Lemmas on vectors, matrices and the arithmetic\<close>








subsection \<open>An entry of \<open>M1\<close> that is not finite stays so during the elimination\<close>











section \<open>The claims on the transform primitives\<close>

text \<open>
  C10. The claim: a default-constructed \<open>CVector3\<close> has all three components equal to
  zero, as the comment \<open>Default constructor (zero)\<close> says. The loop of the constructor
  starts at index 1, so component 0 keeps the indeterminate content of the storage:
  on storage holding 7, 7, 7 the constructed vector is 7, 0, 0.
\<close>

theorem CVector3_ctor_keeps_component_0:
  "CVector3_ctor (CVector3 (Fin 7) (Fin 7) (Fin 7)) = CVector3 (Fin 7) (Fin 0) (Fin 0)"
  by code_simp



subsection \<open>In exact arithmetic a singular matrix has a zero pivot\<close>














section \<open>The claims on the pairwise aligner\<close>

lemma fold_empty_body: "fold (\<lambda>i (count, inliers). (count, inliers)) xs s = s"
  by (induction xs) (simp_all add: split_def)

lemma leastSquaresFit_status: "fst (leastSquaresFit f1 f2 matches m f inliers M uninit) = 0"
  by (simp add: leastSquaresFit_def Let_def split_def)

lemma leastSquaresFit_matrix:
  "\<exists>u v. snd (leastSquaresFit f1 f2 matches m f inliers M uninit) =
     CTransform3x3 (CVector3 (Fin 1) (Fin 0) u) (CVector3 (Fin 0) (Fin 1) v)
       (CVector3 (Fin 0) (Fin 0) (Fin 1))"
proof -
  obtain a b c d e g h k l where
    M: "M = CTransform3x3 (CVector3 a b c) (CVector3 d e g) (CVector3 h k l)"
    by (metis CTransform3x3.exhaust CVector3.exhaust)
  show ?thesis
    by (simp add: leastSquaresFit_def Let_def split_def M mset_def)
qed

lemma leastSquaresFit_empty:
  "snd (leastSquaresFit f1 f2 matches m f [] M uninit) =
     CTransform3x3 (CVector3 (Fin 1) (Fin 0) NaN) (CVector3 (Fin 0) (Fin 1) NaN)
       (CVector3 (Fin 0) (Fin 0) (Fin 1))"
proof -
  obtain a b c d e g h k l where
    M: "M = CTransform3x3 (CVector3 a b c) (CVector3 d e g) (CVector3 h k l)"
    by (metis CTransform3x3.exhaust CVector3.exhaust)
  show ?thesis
    by (simp add: leastSquaresFit_def Let_def M mset_def signed_inf_def)
qed

text \<open>
  C1. The claim: \<open>alignPair\<close> stores in \<open>M\<close> the transform with the most inliers among
  the sampled hypotheses, refined by a least-squares fit; the comment above the function
  says the same. With one feature at (0, 0) in the first image, its match at (5, -3) in
  the second, one iteration and threshold 1, the only minimal sample is that match and
  the transform claimed is the translation by (5, -3). The function of the source has an
  empty body: it returns 0 and \<open>M\<close> is still the identity the caller passed.
\<close>

theorem alignPair_leaves_M:
  "alignPair [feature_at 1 0 0] [feature_at 1 5 (- 3)] [match_of 1 1] eTranslate (Fin 0) 1 (Fin 1)
     CTransform3x3_ctor = (0, CTransform3x3_ctor)
   \<and> CTransform3x3_ctor \<noteq> Translation (Fin 5) (Fin (- 3))"
  by (simp add: alignPair_def) code_simp

text \<open>
  C2, as stated: with an empty match list or an empty inlier list \<open>alignPair\<close> and
  \<open>leastSquaresFit\<close> report a failure and never return a transform holding a NaN from
  the division by the inlier count. On the empty inlier list \<open>leastSquaresFit\<close> returns
  the status 0 and the translation entries \<open>0.0 / 0\<close>, which are NaN.
\<close>

theorem leastSquaresFit_empty_inliers_NaN:
  "leastSquaresFit [] [] [] eTranslate (Fin 0) [] CTransform3x3_ctor zero_stack =
     (0, CTransform3x3 (CVector3 (Fin 1) (Fin 0) NaN) (CVector3 (Fin 0) (Fin 1) NaN)
           (CVector3 (Fin 0) (Fin 0) (Fin 1)))"
  by code_simp

text \<open>
  C2, amended: \<open>alignPair\<close> and \<open>leastSquaresFit\<close> have no failure status: both return 0
  on every input, the empty match list and the empty inlier list included; on an empty
  inlier list \<open>leastSquaresFit\<close> divides zero by zero and stores NaN in \<open>M[0][2]\<close> and
  \<open>M[1][2]\<close>, next to the identity in the other entries.
\<close>

theorem aligner_has_no_failure_status:
  "fst (alignPair f1 f2 matches m f nRANSAC RANSACthresh M) = 0
   \<and> fst (leastSquaresFit f1 f2 matches m f inliers M uninit) = 0
   \<and> snd (leastSquaresFit f1 f2 matches m f [] M uninit) =
       CTransform3x3 (CVector3 (Fin 1) (Fin 0) NaN) (CVector3 (Fin 0) (Fin 1) NaN)
         (CVector3 (Fin 0) (Fin 0) (Fin 1))"
  by (simp add: alignPair_def leastSquaresFit_status leastSquaresFit_empty)

text \<open>
  C3. The claim: for a non-empty inlier list the translation of the fitted transform is
  the mean of the displacements \<open>f2.location - f1.location\<close> of the inliers, as the
  comment in the function says. The statement that computes the displacement of an
  inlier is missing, so the fit never reads a feature: for one inlier displaced by
  (5, -3) it returns what it returns for one inlier displaced by (0, 0), whatever the
  unassigned locals hold, and the translation (0, 0) when they hold zero.
\<close>

theorem leastSquaresFit_ignores_features:
  "leastSquaresFit [feature_at 1 0 0] [feature_at 1 5 (- 3)] [match_of 1 1] eTranslate (Fin 0) [0]
     M uninit =
   leastSquaresFit [feature_at 1 0 0] [feature_at 1 0 0] [match_of 1 1] eTranslate (Fin 0) [0]
     M uninit
   \<and> leastSquaresFit [feature_at 1 0 0] [feature_at 1 5 (- 3)] [match_of 1 1] eTranslate (Fin 0) [0]
       CTransform3x3_ctor zero_stack = (0, Translation (Fin 0) (Fin 0))"
proof
  show "leastSquaresFit [feature_at 1 0 0] [feature_at 1 5 (- 3)] [match_of 1 1] eTranslate
          (Fin 0) [0] M uninit =
        leastSquaresFit [feature_at 1 0 0] [feature_at 1 0 0] [match_of 1 1] eTranslate
          (Fin 0) [0] M uninit"
    by (simp add: leastSquaresFit_def)
  show "leastSquaresFit [feature_at 1 0 0] [feature_at 1 5 (- 3)] [match_of 1 1] eTranslate
          (Fin 0) [0] CTransform3x3_ctor zero_stack = (0, Translation (Fin 0) (Fin 0))"
    by code_simp
qed

text \<open>
  C4. The claim: \<open>countInliers\<close> returns the number of matches whose first feature,
  mapped through the transform, lies within the threshold of the second, and the indices
  of those matches; the comment above the function says the same. The loop body is empty:
  the count is 0 and the list is empty on every input, also for a feature matched to a
  feature at the same pixel under the identity with threshold 1.
\<close>

theorem countInliers_counts_nothing:
  "countInliers f1 f2 matches m f M RANSACthresh inliers = (0, [])"
  unfolding countInliers_def by (rule fold_empty_body)

section \<open>The claim on the caller of the blender\<close>

























text \<open>\<open>BlendPairs\<close> returns a list whenever the pair list has a line, every line
  converts and every file can be read.\<close>

lemma BlendPairs_loop_returns:
  assumes "\<forall>path. \<exists>im. ReadFile path = Inr im"
  shows "\<exists>ipList' M' f2'. BlendPairs_loop ReadFile (map Some ps) ipList M f2 = Inr (ipList', M', f2')
           \<and> length ipList' = length ipList + length ps"
proof (induction ps arbitrary: ipList M f2)
  case Nil
  then show ?case by simp
next
  case (Cons l ps)
  obtain in1 in2 dx dy where l: "l = (in1, in2, dx, dy)" by (cases l) auto
  from assms obtain im where im: "ReadFile in1 = Inr im" by blast
  from Cons [of "ipList @ [\<lparr>ip_img = im, ip_position =
        (if length ipList = 0 then Translation (Fin 0) (Fin 0)
         else mul_mat (ip_position (ipList ! (length ipList - 1))) M)\<rparr>]"
      "read_displacement M dx dy" in2]
  show ?case by (auto simp: l im Let_def)
qed

lemma BlendPairs_returns:
  assumes "\<forall>path. \<exists>im. ReadFile path = Inr im" and "ps \<noteq> []"
  shows "\<exists>ipList. BlendPairs ReadFile (map Some ps) = Inr ipList"
proof -
  from BlendPairs_loop_returns [OF assms(1), of ps "[]" CTransform3x3_ctor "[]"]
  obtain ipList' M' f2' where
    l: "BlendPairs_loop ReadFile (map Some ps) [] CTransform3x3_ctor [] = Inr (ipList', M', f2')"
      "length ipList' = length ps"
    by auto
  from assms(1) obtain im where "ReadFile f2' = Inr im" by blast
  moreover have "ipList' \<noteq> []" using l(2) assms(2) by auto
  ultimately show ?thesis using l(1) by (simp add: BlendPairs_def Let_def)
qed



section \<open>Lemmas on images and on the loops of the blender\<close>

lemma is_black_Some: "is_black img x y = Some k \<Longrightarrow> k = black img x y"
  by (auto simp: is_black_def black_def split: Option.bind_splits if_splits)

lemma Pixel_add_Some:
  assumes "Pixel_add acc x y b v = Some acc'"
  shows "\<exists>a. Pixel acc x y b = Some a \<and>
           acc' = acc\<lparr>m_memory := (m_memory acc)[nat (PixelAddress acc x y b) := dadd a v]\<rparr> \<and>
           0 \<le> PixelAddress acc x y b \<and> PixelAddress acc x y b < int (length (m_memory acc))"
  using assms
  by (auto simp: Pixel_add_def Pixel_assign_def Pixel_def Let_def split: Option.bind_splits if_splits)

lemma PixelAddress_upd [simp]:
  "PixelAddress (acc\<lparr>m_memory := m\<rparr>) x y b = PixelAddress acc x y b"
  by (simp add: PixelAddress_def)

lemma Pixel_mem:
  "Pixel (acc\<lparr>m_memory := m\<rparr>) x y b =
     (if 0 \<le> PixelAddress acc x y b \<and> PixelAddress acc x y b < int (length m)
      then Some (m ! nat (PixelAddress acc x y b)) else None)"
  by (simp add: Pixel_def PixelAddress_def Let_def)

lemma Pixel_eq:
  "Pixel acc x y b =
     (if 0 \<le> PixelAddress acc x y b \<and> PixelAddress acc x y b < int (length (m_memory acc))
      then Some (m_memory acc ! nat (PixelAddress acc x y b)) else None)"
  by (simp add: Pixel_def Let_def)

lemma PixelAddress_band: "PixelAddress acc x y b = PixelAddress acc x y 0 + b"
  by (simp add: PixelAddress_def)

lemma AccumulateBlend_pixel_cases:
  assumes "AccumulateBlend_pixel img Minv y x acc = Some acc'"
  shows "(\<not> InBounds (m_shape acc) x y \<and> acc' = acc) \<or>
    (InBounds (m_shape acc) x y \<and>
     (footprint_outside img (fst (src_coord Minv x y)) (snd (src_coord Minv x y)) \<or>
      any_black img (fst (src_coord Minv x y)) (snd (src_coord Minv x y))) \<and> acc' = acc) \<or>
    (InBounds (m_shape acc) x y \<and>
     \<not> footprint_outside img (fst (src_coord Minv x y)) (snd (src_coord Minv x y)) \<and>
     \<not> any_black img (fst (src_coord Minv x y)) (snd (src_coord Minv x y)) \<and>
     (\<exists>a0 a1 a2 a3 c0 c1 c2 c3.
        Pixel acc x y 0 = Some a0 \<and> Pixel acc x y 1 = Some a1 \<and>
        Pixel acc x y 2 = Some a2 \<and> Pixel acc x y 3 = Some a3 \<and>
        contribution img (fst (src_coord Minv x y)) (snd (src_coord Minv x y)) 0 = Some c0 \<and>
        contribution img (fst (src_coord Minv x y)) (snd (src_coord Minv x y)) 1 = Some c1 \<and>
        contribution img (fst (src_coord Minv x y)) (snd (src_coord Minv x y)) 2 = Some c2 \<and>
        contribution img (fst (src_coord Minv x y)) (snd (src_coord Minv x y)) 3 = Some c3 \<and>
        0 \<le> PixelAddress acc x y 0 \<and> PixelAddress acc x y 3 < int (length (m_memory acc)) \<and>
        acc' = blend_writes acc x y (dadd a0 c0) (dadd a1 c1) (dadd a2 c2) (dadd a3 c3)))"
proof (cases "InBounds (m_shape acc) x y")
  case False
  with assms show ?thesis
    by (auto simp: AccumulateBlend_pixel_def InBounds_def)
next
  case inb: True
  obtain x_src y_src where sc: "src_coord Minv x y = (x_src, y_src)"
    by (cases "src_coord Minv x y") auto
  show ?thesis
  proof (cases "footprint_outside img x_src y_src")
    case True
    with assms inb sc show ?thesis
      by (auto simp: AccumulateBlend_pixel_def InBounds_def)
  next
    case fo: False
    from assms inb sc fo obtain xf yf where
      xf: "to_int (dfloor x_src) = Some xf" and yf: "to_int (dfloor y_src) = Some yf"
      by (auto simp: AccumulateBlend_pixel_def InBounds_def Let_def split: Option.bind_splits)
    show ?thesis
    proof (cases "any_black img x_src y_src")
      case True
      have "acc' = acc"
        using assms inb sc fo xf yf True
        by (auto simp: AccumulateBlend_pixel_def InBounds_def any_black_def Let_def
            dest!: is_black_Some split: Option.bind_splits if_splits)
      with inb sc True show ?thesis by simp
    next
      case nb: False
      then have b: "\<not> black img xf yf" "\<not> black img (xf + 1) yf" "\<not> black img xf (yf + 1)"
          "\<not> black img (xf + 1) (yf + 1)"
        using xf yf by (auto simp: any_black_def)
      from assms inb sc fo xf yf b obtain l0 l1 l2 acc1 acc2 acc3 where
        l: "PixelLerp img x_src y_src 0 = Some l0" "PixelLerp img x_src y_src 1 = Some l1"
           "PixelLerp img x_src y_src 2 = Some l2" and
        w: "Pixel_add acc x y 0 (dmul (Fin 1) l0) = Some acc1"
           "Pixel_add acc1 x y 1 (dmul (Fin 1) l1) = Some acc2"
           "Pixel_add acc2 x y 2 (dmul (Fin 1) l2) = Some acc3"
           "Pixel_add acc3 x y 3 (Fin 1) = Some acc'"
        by (auto simp: AccumulateBlend_pixel_def InBounds_def Let_def
            dest!: is_black_Some split: Option.bind_splits if_splits)
      let ?A = "PixelAddress acc x y 0"
      from Pixel_add_Some [OF w(1)] obtain a0 where
        a0: "Pixel acc x y 0 = Some a0"
            "acc1 = acc\<lparr>m_memory := (m_memory acc)[nat ?A := dadd a0 (dmul (Fin 1) l0)]\<rparr>"
            "0 \<le> ?A"
        by blast
      from Pixel_add_Some [OF w(2)] obtain a1 where
        a1: "Pixel acc1 x y 1 = Some a1"
            "acc2 = acc1\<lparr>m_memory := (m_memory acc1)[nat (PixelAddress acc1 x y 1) := dadd a1 (dmul (Fin 1) l1)]\<rparr>"
        by blast
      from Pixel_add_Some [OF w(3)] obtain a2 where
        a2: "Pixel acc2 x y 2 = Some a2"
            "acc3 = acc2\<lparr>m_memory := (m_memory acc2)[nat (PixelAddress acc2 x y 2) := dadd a2 (dmul (Fin 1) l2)]\<rparr>"
        by blast
      from Pixel_add_Some [OF w(4)] obtain a3 where
        a3: "Pixel acc3 x y 3 = Some a3"
            "acc' = acc3\<lparr>m_memory := (m_memory acc3)[nat (PixelAddress acc3 x y 3) := dadd a3 (Fin 1)]\<rparr>"
            "PixelAddress acc3 x y 3 < int (length (m_memory acc3))"
        by blast
      have r1: "Pixel acc x y 1 = Some a1"
        using a1(1) a0(3)
        by (simp add: a0(2) Pixel_mem Pixel_eq [of acc] PixelAddress_band [of acc x y 1]
            nth_list_update split: if_splits)
      have r2: "Pixel acc x y 2 = Some a2"
        using a2(1) a0(3)
        by (simp add: a1(2) a0(2) Pixel_mem Pixel_eq [of acc] PixelAddress_band [of acc x y 1]
            PixelAddress_band [of acc x y 2] nth_list_update split: if_splits)
      have r3: "Pixel acc x y 3 = Some a3"
        using a3(1) a0(3)
        by (simp add: a2(2) a1(2) a0(2) Pixel_mem Pixel_eq [of acc] PixelAddress_band [of acc x y 1]
            PixelAddress_band [of acc x y 2] PixelAddress_band [of acc x y 3] nth_list_update
            split: if_splits)
      have len: "PixelAddress acc x y 3 < int (length (m_memory acc))"
        using a3(3) by (simp add: a2(2) a1(2) a0(2))
      have res: "acc' = blend_writes acc x y (dadd a0 (dmul (Fin 1) l0)) (dadd a1 (dmul (Fin 1) l1))
                   (dadd a2 (dmul (Fin 1) l2)) (dadd a3 (Fin 1))"
        by (simp add: a3(2) a2(2) a1(2) a0(2) blend_writes_def)
      have c: "contribution img x_src y_src 0 = Some (dmul (Fin 1) l0)"
          "contribution img x_src y_src 1 = Some (dmul (Fin 1) l1)"
          "contribution img x_src y_src 2 = Some (dmul (Fin 1) l2)"
          "contribution img x_src y_src 3 = Some (Fin 1)"
        using l by (simp_all add: contribution_def)
      show ?thesis
        using inb sc fo nb a0(1,3) r1 r2 r3 len res c by auto
    qed
  qed
qed


lemma PixelAddress_inj:
  assumes fit: "row_fits im"
    and p: "InBounds (m_shape im) x y" "0 \<le> b" "b < nBands (m_shape im)"
    and q: "InBounds (m_shape im) x' y'" "0 \<le> b'" "b' < nBands (m_shape im)"
    and eq: "PixelAddress im x y b = PixelAddress im x' y' b'"
  shows "x = x' \<and> y = y' \<and> b = b'"
proof -
  define nb where "nb = nBands (m_shape im)"
  define w where "w = width (m_shape im)"
  define rs where "rs = m_rowSize im"
  define u where "u = x * nb + b"
  define u' where "u' = x' * nb + b'"
  have nb: "0 < nb" using p by (simp add: nb_def)
  have x: "0 \<le> x" "x + 1 \<le> w" "0 \<le> x'" "x' + 1 \<le> w"
    using p q by (simp_all add: InBounds_def w_def)
  have b: "0 \<le> b" "b < nb" "0 \<le> b'" "b' < nb" using p q by (simp_all add: nb_def)
  have "(x + 1) * nb \<le> w * nb" using x(2) nb by (intro mult_right_mono) simp_all
  moreover have "(x' + 1) * nb \<le> w * nb" using x(4) nb by (intro mult_right_mono) simp_all
  moreover have "nb * w \<le> rs" using fit by (simp add: row_fits_def nb_def w_def rs_def)
  ultimately have ub: "u < rs" "u' < rs"
    using b by (simp_all add: u_def u'_def algebra_simps)
  have lb: "0 \<le> u" "0 \<le> u'" using x b nb by (simp_all add: u_def u'_def)
  have e: "u + y * rs = u' + y' * rs"
    using eq by (simp add: PixelAddress_def u_def u'_def nb_def rs_def algebra_simps)
  have rs: "rs \<noteq> 0" using ub lb by auto
  have "(u + y * rs) div rs = y" "(u' + y' * rs) div rs = y'"
    using lb ub rs by (simp_all add: div_pos_pos_trivial)
  with e have y: "y = y'" by simp
  with e have uu: "u = u'" by simp
  have "(b + x * nb) div nb = x" "(b' + x' * nb) div nb = x'"
    using b nb by (simp_all add: div_pos_pos_trivial)
  moreover have "b + x * nb = b' + x' * nb" using uu by (simp add: u_def u'_def)
  ultimately have xx: "x = x'" by simp
  with uu have "b = b'" by (simp add: u_def u'_def)
  with y xx show ?thesis by simp
qed

lemma PixelAddress_nonneg:
  assumes "row_fits im" "InBounds (m_shape im) x y" "0 \<le> b" "0 \<le> nBands (m_shape im)"
  shows "0 \<le> PixelAddress im x y b"
proof -
  have "0 \<le> nBands (m_shape im) * width (m_shape im)"
    using assms by (simp add: InBounds_def)
  then have "0 \<le> m_rowSize im" using assms(1) by (simp add: row_fits_def)
  then show ?thesis using assms by (simp add: PixelAddress_def InBounds_def)
qed

lemma blend_writes_layout: "same_layout acc (blend_writes acc x y v0 v1 v2 v3)"
  by (simp add: same_layout_def blend_writes_def)

lemma blend_writes_other:
  assumes fit: "row_fits acc" and nb: "4 \<le> nBands (m_shape acc)"
    and p0: "InBounds (m_shape acc) x0 y0"
    and p: "InBounds (m_shape acc) x y" "0 \<le> b" "b < nBands (m_shape acc)"
    and ne: "(x, y) \<noteq> (x0, y0)"
  shows "Pixel (blend_writes acc x0 y0 v0 v1 v2 v3) x y b = Pixel acc x y b"
proof -
  have d: "PixelAddress acc x y b \<noteq> PixelAddress acc x0 y0 k" if "0 \<le> k" "k < 4" for k
    using PixelAddress_inj [OF fit p p0, of k] that nb ne by auto
  have n: "0 \<le> PixelAddress acc x y b" "0 \<le> PixelAddress acc x0 y0 k" if "0 \<le> k" for k
    using PixelAddress_nonneg [OF fit p(1,2)] PixelAddress_nonneg [OF fit p0 that] nb by auto
  have "nat (PixelAddress acc x y b) \<noteq> nat (PixelAddress acc x0 y0 k)" if "0 \<le> k" "k < 4" for k
    using d [OF that] n [OF that(1)] by simp
  from this [of 0] this [of 1] this [of 2] this [of 3] show ?thesis
    by (simp add: blend_writes_def Pixel_mem Pixel_eq [of acc])
qed


lemma same_layout_refl: "same_layout a a"
  by (simp add: same_layout_def)

lemma frame_outside_refl: "frame_outside K acc acc"
  by (simp add: frame_outside_def same_layout_def)

lemma frame_outside_trans:
  assumes "frame_outside K a b" "frame_outside K' b c"
  shows "frame_outside (K \<union> K') a c"
  using assms by (auto simp: frame_outside_def same_layout_def)

lemma frame_outside_layout:
  assumes "frame_outside K a b"
  shows "m_shape b = m_shape a" "row_fits a \<Longrightarrow> row_fits b"
  using assms by (auto simp: frame_outside_def same_layout_def row_fits_def)

lemma AccumulateBlend_pixel_frame:
  assumes "AccumulateBlend_pixel img Minv y0 x0 acc = Some acc'"
    and "row_fits acc" "4 \<le> nBands (m_shape acc)"
  shows "frame_outside {(x0, y0)} acc acc'"
  using AccumulateBlend_pixel_cases [OF assms(1)] assms(2,3)
  by (auto simp: frame_outside_def same_layout_refl blend_writes_layout blend_writes_other)



lemma row_frame:
  assumes "for_each (\<lambda>x acc. AccumulateBlend_pixel img Minv y0 x acc) xs acc = Some acc'"
    and "row_fits acc" "4 \<le> nBands (m_shape acc)"
  shows "frame_outside (set xs \<times> {y0}) acc acc'"
  using assms
proof (induction xs arbitrary: acc)
  case Nil
  then show ?case by (simp add: frame_outside_refl)
next
  case (Cons x xs)
  from Cons.prems(1) obtain acc1 where
    s: "AccumulateBlend_pixel img Minv y0 x acc = Some acc1"
       "for_each (\<lambda>x acc. AccumulateBlend_pixel img Minv y0 x acc) xs acc1 = Some acc'"
    by (auto split: option.splits)
  have f1: "frame_outside {(x, y0)} acc acc1"
    using AccumulateBlend_pixel_frame [OF s(1) Cons.prems(2,3)] .
  have "frame_outside (set xs \<times> {y0}) acc1 acc'"
    using Cons.IH [OF s(2)] frame_outside_layout [OF f1] Cons.prems(2,3) by simp
  from frame_outside_trans [OF f1 this] show ?case
    by (simp add: insert_is_Un [symmetric])
qed

lemma loops_frame:
  assumes "for_each (\<lambda>y acc. for_each (\<lambda>x acc. AccumulateBlend_pixel img Minv y x acc) xs acc)
             ys acc = Some acc'"
    and "row_fits acc" "4 \<le> nBands (m_shape acc)"
  shows "frame_outside (set xs \<times> set ys) acc acc'"
  using assms
proof (induction ys arbitrary: acc)
  case Nil
  then show ?case by (simp add: frame_outside_refl)
next
  case (Cons y ys)
  from Cons.prems(1) obtain acc1 where
    s: "for_each (\<lambda>x acc. AccumulateBlend_pixel img Minv y x acc) xs acc = Some acc1"
       "for_each (\<lambda>y acc. for_each (\<lambda>x acc. AccumulateBlend_pixel img Minv y x acc) xs acc)
          ys acc1 = Some acc'"
    by (auto split: option.splits)
  have f1: "frame_outside (set xs \<times> {y}) acc acc1"
    using row_frame [OF s(1) Cons.prems(2,3)] .
  have "frame_outside (set xs \<times> set ys) acc1 acc'"
    using Cons.IH [OF s(2)] frame_outside_layout [OF f1] Cons.prems(2,3) by simp
  from frame_outside_trans [OF f1 this] show ?case
    by (simp add: Sigma_Un_distrib2 [symmetric] insert_is_Un [symmetric])
qed






lemma AccumulateBlend_loops:
  assumes "AccumulateBlend img acc M blendWidth = Some (img', acc')"
    and "ImageBoundingBox img M = Some (bb_min_x, bb_min_y, bb_max_x, bb_max_y)"
  shows "img' = img"
    and "for_each (\<lambda>y acc. for_each (\<lambda>x acc. AccumulateBlend_pixel img (Inverse M) y x acc)
                     [bb_min_x..bb_max_x - 1] acc) [bb_min_y..bb_max_y] acc = Some acc'"
  using assms by (auto simp: AccumulateBlend_def Let_def split: Option.bind_splits if_splits)


subsection \<open>The rows of an allocated image fit its stride\<close>

lemma and_not_mask_int: "(x::int) AND NOT (mask n) = push_bit n (drop_bit n x)"
  by (rule bit_eqI) (auto simp: bit_simps)

lemma and_m8: "(x::int) AND (- 8) = x - x mod 8"
proof -
  have "(- 8 :: int) = NOT (mask 3)" by (simp add: mask_eq_exp_minus_1)
  then have "x AND (- 8) = push_bit 3 (drop_bit 3 x)" by (simp only: and_not_mask_int)
  also have "\<dots> = x - x mod 8"
    by (simp add: push_bit_eq_mult drop_bit_eq_div minus_mod_eq_mult_div [symmetric] mult.commute)
  finally show ?thesis .
qed

lemma row_elements_fits:
  assumes "bandSize = 1 \<or> bandSize = 4"
  shows "nBands s * width s \<le> row_elements bandSize s"
proof -
  define n where "n = nBands s * width s"
  have "(bandSize * n + 7) - (bandSize * n + 7) mod 8 \<ge> bandSize * n"
    by (smt (verit) pos_mod_bound)
  then have "bandSize * n \<le> (bandSize * nBands s * width s + 7) AND (- 8)"
    by (simp add: and_m8 n_def mult.assoc)
  then have "(bandSize * n) div bandSize \<le> ((bandSize * nBands s * width s + 7) AND (- 8)) div bandSize"
    using assms by (intro zdiv_mono1) auto
  then show ?thesis using assms by (auto simp: row_elements_def n_def)
qed

lemma CImageOf_ctor_row_fits:
  "bandSize = 1 \<or> bandSize = 4 \<Longrightarrow> row_fits (CImageOf_ctor bandSize s raw)"
  by (simp add: row_fits_def CImageOf_ctor_def row_elements_fits)

lemma rgba_run:
  "AccumulateBlend rgba_img rgba_acc CTransform3x3_ctor (Fin 1) = Some (rgba_img, rgba_acc_after)"
  by code_simp

lemma rgba_box: "ImageBoundingBox rgba_img CTransform3x3_ctor = Some (0, 0, 2, 1)"
  by code_simp

lemma rgba_acc_fits: "row_fits rgba_acc" "4 \<le> nBands (m_shape rgba_acc)"
  by code_simp+

section \<open>The claims on the blender\<close>

text \<open>
  C6. The claim: \<open>ImageBoundingBox\<close> divides every mapped corner by that corner's own
  homogeneous coordinate and returns the floor of the minimum and the ceiling of the
  maximum of the four corners. The source divides all four corners by \<open>corners[0][2]\<close>
  and starts the maxima at \<open>0.0\<close>. For a 4 by 4 image under the projective transform
  with rows (1 0 0), (0 1 0), (1 0 1) the corner (3, 0) maps to (3, 0, 4), that is
  (0.75, 0): the box of the claim is (0, 0, 1, 3), the source returns (0, 0, 3, 3). For
  the translation by (-10, -10) the box of the claim is (-10, -10, -7, -7), the source
  returns (-10, -10, 0, 0).
\<close>

theorem ImageBoundingBox_divides_by_first_corner:
  "ImageBoundingBox image_4x4 projective_example = Some (0, 0, 3, 3)
   \<and> ImageBoundingBox_spec image_4x4 projective_example = Some (0, 0, 1, 3)
   \<and> ImageBoundingBox image_4x4 (Translation (Fin (- 10)) (Fin (- 10))) = Some (- 10, - 10, 0, 0)
   \<and> ImageBoundingBox_spec image_4x4 (Translation (Fin (- 10)) (Fin (- 10))) =
       Some (- 10, - 10, - 7, - 7)"
  by code_simp




text \<open>
  C9, as stated: \<open>AccumulateBlend\<close> writes only to accumulator pixels inside the canvas
  and inside the bounding box of the transformed image. \<open>Pixel(x, y, band)\<close> is an
  offset into the buffer that is not checked against the number of bands, and the body
  writes the bands 0 to 3. On a grey image the accumulator has one band, so the write to
  band 3 of the pixel (1, 0) is a write to the pixel (0, 2), which is in the canvas and
  outside of the bounding box (0, 0, 4, 1): its value changes from 0 to 1.
\<close>

theorem AccumulateBlend_one_band_writes_outside_box:
  "AccumulateBlend gray_img gray_acc CTransform3x3_ctor (Fin 1) = Some (gray_img, gray_acc_after)
   \<and> ImageBoundingBox gray_img CTransform3x3_ctor = Some (0, 0, 4, 1)
   \<and> InBounds (m_shape gray_acc) 0 2
   \<and> Pixel gray_acc 0 2 0 = Some (Fin 0)
   \<and> Pixel gray_acc_after 0 2 0 = Some (Fin 1)"
  by code_simp

text \<open>
  C9, amended: in a call that completes on an accumulator with at least four bands whose
  rows fit the stride, every accumulator pixel that is outside of the bounding box of the
  transformed image is unchanged at every band, the shape, stride and size of the
  accumulator are unchanged, and the source image is unchanged. (The pixels written are
  inside the canvas by the bounds check of the loop body.)
\<close>

theorem AccumulateBlend_frame:
  assumes "AccumulateBlend img acc M blendWidth = Some (img', acc')"
    and "ImageBoundingBox img M = Some (bb_min_x, bb_min_y, bb_max_x, bb_max_y)"
    and "row_fits acc" and "4 \<le> nBands (m_shape acc)"
    and "InBounds (m_shape acc) x y" and "0 \<le> band" and "band < nBands (m_shape acc)"
    and "\<not> (bb_min_x \<le> x \<and> x \<le> bb_max_x \<and> bb_min_y \<le> y \<and> y \<le> bb_max_y)"
  shows "img' = img \<and> same_layout acc acc' \<and> Pixel acc' x y band = Pixel acc x y band"
proof -
  have "frame_outside (set [bb_min_x..bb_max_x - 1] \<times> set [bb_min_y..bb_max_y]) acc acc'"
    using loops_frame [OF AccumulateBlend_loops(2) [OF assms(1,2)] assms(3,4)] .
  moreover have "(x, y) \<notin> set [bb_min_x..bb_max_x - 1] \<times> set [bb_min_y..bb_max_y]"
    using assms(8) by auto
  ultimately show ?thesis
    using AccumulateBlend_loops(1) [OF assms(1,2)] assms(5-7) by (auto simp: frame_outside_def)
qed

theorem AccumulateBlend_frame_witness:
  "AccumulateBlend rgba_img rgba_acc CTransform3x3_ctor (Fin 1) = Some (rgba_img, rgba_acc_after)
   \<and> ImageBoundingBox rgba_img CTransform3x3_ctor = Some (0, 0, 2, 1)
   \<and> row_fits rgba_acc \<and> 4 \<le> nBands (m_shape rgba_acc)
   \<and> InBounds (m_shape rgba_acc) 0 2
   \<and> same_layout rgba_acc rgba_acc_after
   \<and> Pixel rgba_acc_after 0 2 3 = Pixel rgba_acc 0 2 3"
proof -
  have i: "InBounds (m_shape rgba_acc) 0 2" by code_simp
  have b: "(3::int) < nBands (m_shape rgba_acc)" by code_simp
  have o: "\<not> ((0::int) \<le> 0 \<and> (0::int) \<le> 2 \<and> (0::int) \<le> 2 \<and> (2::int) \<le> 1)" by simp
  from AccumulateBlend_frame [OF rgba_run rgba_box rgba_acc_fits i _ b o]
  have "same_layout rgba_acc rgba_acc_after \<and> Pixel rgba_acc_after 0 2 3 = Pixel rgba_acc 0 2 3"
    by simp
  with rgba_run rgba_box rgba_acc_fits i show ?thesis by simp
qed

end
